theory Spec2Isabelle
  imports Main
begin

section \<open>JavaScript values that the worker handles\<close>

text \<open>
  A parsed response body is a JSON value. The number type is left open (\<open>'n\<close>):
  the program never computes with a number, it only converts one to a string.
  An object is the list of its own properties; \<open>map_of\<close> reads one.
\<close>

datatype 'n json =
    JNull
  | JBool bool
  | JNum 'n
  | JStr string
  | JArr "'n json list"
  | JObj "(string \<times> 'n json) list"

text \<open>A JavaScript value read from a property: \<open>None\<close> is \<open>undefined\<close>.\<close>

type_synonym 'n jsval = "'n json option"

text \<open>
  What a rejected promise carries. \<open>Error m\<close> is \<open>new Error(m)\<close>; the other two are
  raised by the runtime (\<open>TypeError\<close> by the \<open>in\<close> operator on a primitive, by a
  second read of a body, by a call on a value that has no such method and by an
  invalid URL; \<open>SyntaxError\<close> by \<open>JSON.parse\<close>).
\<close>

datatype exn = Error string | TypeError | SyntaxError

text \<open>
  The runtime functions that the source calls and does not define:
  \<open>JSON.parse\<close> (\<open>None\<close> when it throws), \<open>JSON.stringify\<close>, the conversion of a
  number to a string, and \<open>new URL(path, base).toString()\<close> (\<open>None\<close> when the
  constructor throws).
\<close>

record 'n platform =
  JSON_parse :: "string \<Rightarrow> 'n json option"
  JSON_stringify :: "'n json \<Rightarrow> string"
  Number_toString :: "'n \<Rightarrow> string"
  URL_toString :: "string \<Rightarrow> string \<Rightarrow> string option"

text \<open>\<open>Array.prototype.join\<close> with a separator.\<close>

fun join :: "string \<Rightarrow> string list \<Rightarrow> string" where
  "join sep [] = []"
| "join sep [x] = x"
| "join sep (x # y # ys) = x @ sep @ join sep (y # ys)"

text \<open>Conversions done one after the other: the first that throws, or all the strings.\<close>

fun in_turn :: "(exn + 'a) list \<Rightarrow> exn + 'a list" where
  "in_turn [] = Inr []"
| "in_turn (Inl e # rs) = Inl e"
| "in_turn (Inr x # rs) = (case in_turn rs of Inl e \<Rightarrow> Inl e | Inr xs \<Rightarrow> Inr (x # xs))"

text \<open>
  ToString of a JSON value, as \<open>new Error(v)\<close> and a template literal apply it; it
  gives a string or throws. A string is itself. An array joins the conversions of
  its elements with commas (\<open>null\<close> elements are empty) and throws where one of them
  throws. An object without a property \<open>toString\<close> of its own is converted by the
  method of the prototype to the fixed text. An object with such a property has no
  conversion: a parsed value is never a function, so the property is not callable,
  \<open>valueOf\<close> gives no primitive either, and the conversion throws a TypeError.
\<close>

fun ToString :: "'n platform \<Rightarrow> 'n json \<Rightarrow> exn + string" where
  "ToString P JNull = Inr ''null''"
| "ToString P (JBool b) = Inr (if b then ''true'' else ''false'')"
| "ToString P (JNum n) = Inr (Number_toString P n)"
| "ToString P (JStr s) = Inr s"
| "ToString P (JArr xs) =
     (case in_turn (map (\<lambda>x. if x = JNull then Inr [] else ToString P x) xs) of
        Inl e \<Rightarrow> Inl e
      | Inr ss \<Rightarrow> Inr (join '','' ss))"
| "ToString P (JObj kvs) =
     (if map_of kvs ''toString'' = None then Inr ''[object Object]'' else Inl TypeError)"

text \<open>
  A value inside a template literal: \<open>undefined\<close> prints as that word, any other
  value is converted, and the literal throws where the conversion does.
\<close>

definition template :: "'n platform \<Rightarrow> 'n jsval \<Rightarrow> exn + string" where
  "template P v = (case v of None \<Rightarrow> Inr ''undefined'' | Some j \<Rightarrow> ToString P j)"

text \<open>
  \<open>body.k\<close> on a value that passed \<open>throwIfError\<close> (an object or an array). None of
  the names the program reads (\<open>error\<close>, \<open>upload_url\<close>, \<open>id\<close>, \<open>text\<close>, \<open>status\<close>) is
  a property of the array or object prototype, so only own properties count.
\<close>

fun get_prop :: "'n json \<Rightarrow> string \<Rightarrow> 'n jsval" where
  "get_prop (JObj kvs) k = map_of kvs k"
| "get_prop _ k = None"

section \<open>The HTTP exchange with the transcription service\<close>

text \<open>The body of an outgoing request: none, the stream of a file, or a text.\<close>

datatype 'f req_body = NoBody | Stream 'f | Text string

record 'f request =
  req_url :: string
  req_method :: string
  req_headers :: "(string \<times> string) list"
  req_body :: "'f req_body"

text \<open>
  What \<open>fetch\<close> resolves to: the status line, the value of
  \<open>headers.get('content-type')\<close> (\<open>None\<close> is \<open>null\<close>) and the body text.
\<close>

record reply =
  status :: nat
  statusText :: string
  content_type :: "string option"
  body :: string

text \<open>
  A \<open>Response\<close> object is the reply and the flag \<open>bodyUsed\<close>: a body is a stream that
  is read once. \<open>fetch\<close> resolves to a response whose body is unread.
\<close>

type_synonym response = "reply \<times> bool"

definition fresh :: "reply \<Rightarrow> response" where
  "fresh r = (r, False)"

text \<open>
  \<open>response.json()\<close> and \<open>response.text()\<close>: each fails with a TypeError on a body
  already read, and otherwise reads it. The result comes with the response after the
  call.
\<close>

definition response_json :: "'n platform \<Rightarrow> response \<Rightarrow> (exn + 'n json) \<times> response" where
  "response_json P res =
     (case res of (r, used) \<Rightarrow>
        if used then (Inl TypeError, res)
        else (case JSON_parse P (body r) of
                None \<Rightarrow> (Inl SyntaxError, (r, True))
              | Some j \<Rightarrow> (Inr j, (r, True))))"

definition response_text :: "response \<Rightarrow> (exn + string) \<times> response" where
  "response_text res =
     (case res of (r, used) \<Rightarrow>
        if used then (Inl TypeError, res) else (Inr (body r), (r, True)))"

section \<open>The client (assemblyai.ts)\<close>

definition baseUrl :: string where
  "baseUrl = ''https://api.assemblyai.com/v2''"

text \<open>
  \<open>if ('error' in body) throw new Error(body.error)\<close>. The \<open>in\<close> operator asks
  whether the property exists, whatever its value, and throws a TypeError when its
  right operand is not an object. \<open>new Error(v)\<close> converts \<open>v\<close> to the message; where
  that conversion throws, its TypeError is what comes out.
\<close>

fun throwIfError :: "'n platform \<Rightarrow> 'n json \<Rightarrow> exn + unit" where
  "throwIfError P (JObj kvs) =
     (case map_of kvs ''error'' of
        Some v \<Rightarrow>
            Inl (case ToString P v of Inl e \<Rightarrow> e | Inr m \<Rightarrow> Error m)
      | None \<Rightarrow> Inr ())"
| "throwIfError P (JArr xs) = Inr ()"
| "throwIfError P _ = Inl TypeError"

text \<open>
  The value that \<open>formData.get('file')\<close> gives and \<open>uploadFile\<close> receives: \<open>null\<close>,
  a string field or a file. Only a file has the method \<open>stream\<close>.
\<close>

datatype 'f form_value = FNull | FString string | FFile 'f

definition uploadFile_request :: "string \<Rightarrow> 'f \<Rightarrow> 'f request" where
  "uploadFile_request apiKey f =
     \<lparr> req_url = baseUrl @ ''/upload'', req_method = ''POST'',
       req_headers = [(''authorization'', apiKey)], req_body = Stream f \<rparr>"

definition uploadFile ::
  "'n platform \<Rightarrow> ('f request \<Rightarrow> exn + reply) \<Rightarrow> string \<Rightarrow> 'f form_value \<Rightarrow> exn + 'n jsval" where
  "uploadFile P fetch apiKey file =
     (case file of
        FFile f \<Rightarrow>
          (case fetch (uploadFile_request apiKey f) of
             Inl e \<Rightarrow> Inl e
           | Inr r \<Rightarrow>
               (case fst (response_json P (fresh r)) of
                  Inl e \<Rightarrow> Inl e
                | Inr json \<Rightarrow>
                    (case throwIfError P json of
                       Inl e \<Rightarrow> Inl e
                     | Inr _ \<Rightarrow> Inr (get_prop json ''upload_url''))))
      | _ \<Rightarrow> Inl TypeError)"

text \<open>
  The object that the caller passes as \<open>params\<close>: its properties in the order in
  which the object lists them (for names like \<open>audio_url\<close> and \<open>webhook_url\<close>, the
  order in which the caller wrote them), each with its value, which may be
  \<open>undefined\<close>.
\<close>

type_synonym 'n CreateTranscriptParams = "(string \<times> 'n jsval) list"

text \<open>
  The object that \<open>JSON.stringify(params)\<close> writes: the properties in their order,
  a property whose value is \<open>undefined\<close> left out.
\<close>

definition params_json :: "'n CreateTranscriptParams \<Rightarrow> 'n json" where
  "params_json params =
     JObj (concat (map (\<lambda>(k, v). case v of None \<Rightarrow> [] | Some j \<Rightarrow> [(k, j)]) params))"

definition createTranscript_request ::
  "'n platform \<Rightarrow> string \<Rightarrow> 'n CreateTranscriptParams \<Rightarrow> 'f request" where
  "createTranscript_request P apiKey params =
     \<lparr> req_url = baseUrl @ ''/transcript'', req_method = ''POST'',
       req_headers = [(''authorization'', apiKey), (''Content-Type'', ''application/json'')],
       req_body = Text (JSON_stringify P (params_json params)) \<rparr>"

definition createTranscript ::
  "'n platform \<Rightarrow> ('f request \<Rightarrow> exn + reply) \<Rightarrow> string \<Rightarrow> 'n CreateTranscriptParams
     \<Rightarrow> exn + 'n json" where
  "createTranscript P fetch apiKey params =
     (case fetch (createTranscript_request P apiKey params) of
        Inl e \<Rightarrow> Inl e
      | Inr r \<Rightarrow>
          (case fst (response_json P (fresh r)) of
             Inl e \<Rightarrow> Inl e
           | Inr transcript \<Rightarrow>
               (case throwIfError P transcript of
                  Inl e \<Rightarrow> Inl e
                | Inr _ \<Rightarrow> Inr transcript)))"

text \<open>The source names no method here: \<open>fetch\<close> then sends a GET without body.\<close>

definition getTranscript_request :: "string \<Rightarrow> string \<Rightarrow> 'f request" where
  "getTranscript_request apiKey tid =
     \<lparr> req_url = baseUrl @ ''/transcript/'' @ tid, req_method = ''GET'',
       req_headers = [(''authorization'', apiKey)], req_body = NoBody \<rparr>"

definition getTranscript ::
  "'n platform \<Rightarrow> ('f request \<Rightarrow> exn + reply) \<Rightarrow> string \<Rightarrow> string \<Rightarrow> exn + 'n json" where
  "getTranscript P fetch apiKey tid =
     (case fetch (getTranscript_request apiKey tid) of
        Inl e \<Rightarrow> Inl e
      | Inr r \<Rightarrow>
          (case fst (response_json P (fresh r)) of
             Inl e \<Rightarrow> Inl e
           | Inr transcript \<Rightarrow>
               (case throwIfError P transcript of
                  Inl e \<Rightarrow> Inl e
                | Inr _ \<Rightarrow> Inr transcript)))"

text \<open>
  One pass through the body of the \<open>while (true)\<close> of \<open>waitForTranscript\<close>, given
  what \<open>fetch\<close> settled to: the loop returns the transcript, throws, or goes round
  again after sleeping that many milliseconds (\<open>setTimeout(resolve, 3000)\<close> in the
  first two cases of the \<open>switch\<close>, nothing when no case matches). The \<open>switch\<close>
  compares with \<open>===\<close>.
\<close>

datatype 'a iteration = Return 'a | Throw exn | Continue nat

definition waitForTranscript_iteration ::
  "'n platform \<Rightarrow> exn + reply \<Rightarrow> 'n json iteration" where
  "waitForTranscript_iteration P pollingResponse =
     (case pollingResponse of
        Inl e \<Rightarrow> Throw e
      | Inr r \<Rightarrow>
          (case fst (response_json P (fresh r)) of
             Inl e \<Rightarrow> Throw e
           | Inr transcript \<Rightarrow>
               (case throwIfError P transcript of
                  Inl e \<Rightarrow> Throw e
                | Inr _ \<Rightarrow>
                    (let st = get_prop transcript ''status'' in
                     if st = Some (JStr ''queued'') \<or> st = Some (JStr ''processing'')
                     then Continue 3000
                     else if st = Some (JStr ''completed'') then Return transcript
                     else Continue 0))))"

definition pollingEndpoint :: "string \<Rightarrow> string" where
  "pollingEndpoint tid = baseUrl @ ''/transcript/'' @ tid"

definition polling_request :: "string \<Rightarrow> string \<Rightarrow> 'f request" where
  "polling_request apiKey tid =
     \<lparr> req_url = pollingEndpoint tid, req_method = ''GET'',
       req_headers = [(''authorization'', apiKey)], req_body = NoBody \<rparr>"

text \<open>
  The loop. \<open>fetch i\<close> is what the call of \<open>fetch\<close> in pass \<open>i\<close> settles to; the
  second counter adds up the milliseconds slept. The loop has no bound: where it
  never leaves, the value is \<open>None\<close>.
\<close>

partial_function (option) waitForTranscript_loop ::
  "'n platform \<Rightarrow> (nat \<Rightarrow> 'f request \<Rightarrow> exn + reply) \<Rightarrow> string \<Rightarrow> string \<Rightarrow> nat \<Rightarrow> nat
     \<Rightarrow> ((exn + 'n json) \<times> nat) option" where
  "waitForTranscript_loop P fetch apiKey tid i slept =
     (case waitForTranscript_iteration P (fetch i (polling_request apiKey tid)) of
        Return transcript \<Rightarrow> Some (Inr transcript, slept)
      | Throw e \<Rightarrow> Some (Inl e, slept)
      | Continue ms \<Rightarrow> waitForTranscript_loop P fetch apiKey tid (Suc i) (slept + ms))"

definition waitForTranscript ::
  "'n platform \<Rightarrow> (nat \<Rightarrow> 'f request \<Rightarrow> exn + reply) \<Rightarrow> string \<Rightarrow> string
     \<Rightarrow> ((exn + 'n json) \<times> nat) option" where
  "waitForTranscript P fetch apiKey tid = waitForTranscript_loop P fetch apiKey tid 0 0"

datatype subtitleFormat = Srt | Vtt

fun subtitleFormat_str :: "subtitleFormat \<Rightarrow> string" where
  "subtitleFormat_str Srt = ''srt''"
| "subtitleFormat_str Vtt = ''vtt''"

text \<open>\<open>s.startsWith(p)\<close>.\<close>

definition startsWith :: "string \<Rightarrow> string \<Rightarrow> bool" where
  "startsWith s p = (take (length p) s = p)"

text \<open>The status code inside the template literal: a natural number in decimal.\<close>

fun show_nat :: "nat \<Rightarrow> string" where
  "show_nat n =
     (if n < 10 then [''0123456789'' ! n]
      else show_nat (n div 10) @ [''0123456789'' ! (n mod 10)])"

declare show_nat.simps [simp del]

definition getSubtitles_request :: "string \<Rightarrow> string \<Rightarrow> subtitleFormat \<Rightarrow> 'f request" where
  "getSubtitles_request apiKey tid subtitleFormat =
     \<lparr> req_url = baseUrl @ ''/transcript/'' @ tid @ ''/'' @ subtitleFormat_str subtitleFormat,
       req_method = ''GET'',
       req_headers = [(''authorization'', apiKey)], req_body = NoBody \<rparr>"

definition getSubtitles ::
  "'n platform \<Rightarrow> ('f request \<Rightarrow> exn + reply) \<Rightarrow> string \<Rightarrow> string \<Rightarrow> subtitleFormat
     \<Rightarrow> exn + string" where
  "getSubtitles P fetch apiKey tid subtitleFormat =
     (case fetch (getSubtitles_request apiKey tid subtitleFormat) of
        Inl e \<Rightarrow> Inl e
      | Inr r \<Rightarrow>
          if status r \<noteq> 200 then
            (if (case content_type r of
                   None \<Rightarrow> False
                 | Some c \<Rightarrow> startsWith c ''application/json'')
             then
               (case response_json P (fresh r) of
                  (Inl e, response) \<Rightarrow> Inl e
                | (Inr errorBody, response) \<Rightarrow>
                    (case throwIfError P errorBody of
                       Inl e \<Rightarrow> Inl e
                     | Inr _ \<Rightarrow> fst (response_text response)))
             else
               Inl (Error (''Get Subtitle request returned status '' @ show_nat (status r)
                           @ '' '' @ statusText r)))
          else fst (response_text (fresh r)))"

section \<open>The worker (worker.ts)\<close>

record Env =
  ASSEMBLYAI_API_KEY :: string

text \<open>
  The inbound request as the handlers read it: its URL and what
  \<open>request.formData()\<close> settles to (the fields in order, or the error of a body that
  is not a form).
\<close>

record 'f IRequest =
  url :: string
  formData :: "exn + (string \<times> 'f form_value) list"

text \<open>\<open>formData.get(name)\<close>: the first field of that name, or \<open>null\<close>.\<close>

definition formData_get :: "(string \<times> 'f form_value) list \<Rightarrow> string \<Rightarrow> 'f form_value" where
  "formData_get fd name = (case map_of fd name of None \<Rightarrow> FNull | Some v \<Rightarrow> v)"

text \<open>The response that the worker sends; \<open>res_body = None\<close> is a response without body.\<close>

record Response =
  res_status :: nat
  res_headers :: "(string \<times> string) list"
  res_body :: "string option"

text \<open>\<open>Response.redirect(url, status)\<close>.\<close>

definition redirect :: "string \<Rightarrow> nat \<Rightarrow> Response" where
  "redirect target code =
     \<lparr> res_status = code, res_headers = [(''Location'', target)], res_body = None \<rparr>"

text \<open>
  Modelled from the spec: the helpers \<open>html\<close>, \<open>text\<close>, \<open>json\<close> and \<open>error\<close> that
  worker.ts imports from the router library are not under src/. The spec has
  \<open>text\<close> respond with its argument as plain text, with the headers it is given, and
  \<open>html\<close> respond with the page. The spec gives \<open>text\<close> strings only; the body
  that the model writes for another value is its string conversion, and none for
  \<open>undefined\<close>, for \<open>null\<close> and for a value without conversion.
\<close>

definition body_init :: "'n platform \<Rightarrow> 'n jsval \<Rightarrow> string option" where
  "body_init P v =
     (case v of
        None \<Rightarrow> None
      | Some JNull \<Rightarrow> None
      | Some j \<Rightarrow> (case ToString P j of Inl e \<Rightarrow> None | Inr s \<Rightarrow> Some s))"

definition text_response :: "'n platform \<Rightarrow> 'n jsval \<Rightarrow> (string \<times> string) list \<Rightarrow> Response" where
  "text_response P v hs =
     \<lparr> res_status = 200,
       res_headers = (''content-type'', ''text/plain; charset=utf-8'') # hs,
       res_body = body_init P v \<rparr>"

definition html_response :: "string \<Rightarrow> Response" where
  "html_response page =
     \<lparr> res_status = 200,
       res_headers = [(''content-type'', ''text/html'')],
       res_body = Some page \<rparr>"

definition upload_form :: string where
  "upload_form = join [CHR 0x0A]
     [''<!DOCTYPE html>'',
      ''<body>'',
      ''  <form action=\"/upload-file\" method=\"post\" enctype=\"multipart/form-data\">'',
      ''    <label for=\"file\">Upload an audio or video file:</label> <br>'',
      ''    <input type=\"file\" name=\"file\" id=\"file\" /><br>'',
      ''    <button type=\"submit\">Submit</button>'',
      ''  </form>'',
      ''</body>'']"

text \<open>The handler of \<open>POST /upload-file\<close>.\<close>

definition upload_file_handler ::
  "'n platform \<Rightarrow> ('f request \<Rightarrow> exn + reply) \<Rightarrow> 'f IRequest \<Rightarrow> Env \<Rightarrow> exn + Response" where
  "upload_file_handler P fetch request env =
     (case formData request of
        Inl e \<Rightarrow> Inl e
      | Inr fd \<Rightarrow>
          (let file = formData_get fd ''file'' in
           case uploadFile P fetch (ASSEMBLYAI_API_KEY env) file of
             Inl e \<Rightarrow> Inl e
           | Inr uploadUrl \<Rightarrow>
               (case createTranscript P fetch (ASSEMBLYAI_API_KEY env)
                       [(''audio_url'', uploadUrl)] of
                  Inl e \<Rightarrow> Inl e
                | Inr transcript \<Rightarrow>
                    (case template P (get_prop transcript ''id'') of
                       Inl e \<Rightarrow> Inl e
                     | Inr shown \<Rightarrow>
                         (case URL_toString P (''/transcript/'' @ shown) (url request) of
                            None \<Rightarrow> Inl TypeError
                          | Some newUrl \<Rightarrow> Inr (redirect newUrl 303))))))"

text \<open>The handler of \<open>GET /transcript/:id\<close>; \<open>tid\<close> is \<open>request.params.id\<close>.\<close>

definition transcript_handler ::
  "'n platform \<Rightarrow> ('f request \<Rightarrow> exn + reply) \<Rightarrow> string \<Rightarrow> Env \<Rightarrow> exn + Response" where
  "transcript_handler P fetch tid env =
     (case getTranscript P fetch (ASSEMBLYAI_API_KEY env) tid of
        Inl e \<Rightarrow> Inl e
      | Inr transcript \<Rightarrow>
          if get_prop transcript ''status'' = Some (JStr ''completed'')
          then Inr (text_response P (get_prop transcript ''text'') [])
          else Inr (text_response P (get_prop transcript ''status'') [(''Refresh'', ''3'')]))"

text \<open>
  The same handler in the second variant of worker.ts, which asks the vendor's SDK
  for the transcript: \<open>transcripts_get\<close> stands for \<open>client.transcripts.get\<close>, which
  is not code of this repository.
\<close>

definition transcript_handler_sdk ::
  "'n platform \<Rightarrow> (string \<Rightarrow> exn + 'n json) \<Rightarrow> string \<Rightarrow> exn + Response" where
  "transcript_handler_sdk P transcripts_get tid =
     (case transcripts_get tid of
        Inl e \<Rightarrow> Inl e
      | Inr transcript \<Rightarrow>
          if get_prop transcript ''status'' = Some (JStr ''completed'')
          then Inr (text_response P (get_prop transcript ''text'') [])
          else Inr (text_response P (get_prop transcript ''status'') [(''Refresh'', ''1'')]))"

text \<open>
  The three routes registered on the router, and what \<open>router.handle\<close> settles to.
  Which route a request matches is the router library's matter (\<open>route_of\<close>); with no
  match the promise resolves to \<open>undefined\<close>.
\<close>

datatype route = Root | UploadFile | TranscriptId string

datatype 'n handled = IsResponse Response | Other "'n jsval"

definition router_handle ::
  "'n platform \<Rightarrow> ('f request \<Rightarrow> exn + reply) \<Rightarrow> ('f IRequest \<Rightarrow> route option)
     \<Rightarrow> 'f IRequest \<Rightarrow> Env \<Rightarrow> exn + 'n handled" where
  "router_handle P fetch route_of request env =
     (case route_of request of
        None \<Rightarrow> Inr (Other None)
      | Some Root \<Rightarrow> Inr (IsResponse (html_response upload_form))
      | Some UploadFile \<Rightarrow> map_sum (\<lambda>e. e) IsResponse (upload_file_handler P fetch request env)
      | Some (TranscriptId tid) \<Rightarrow>
          map_sum (\<lambda>e. e) IsResponse (transcript_handler P fetch tid env))"

text \<open>
  Modelled from the spec: the helpers \<open>json\<close> and \<open>error\<close> of the router library
  are not under src/. The spec has \<open>json\<close> pass a proper response through and
  serialise any other value as JSON, and \<open>error\<close> answer every error with one generic
  error response, with no structured body and no status chosen by the kind of
  error.
\<close>

definition json_response :: "'n platform \<Rightarrow> 'n handled \<Rightarrow> Response" where
  "json_response P v =
     (case v of
        IsResponse r \<Rightarrow> r
      | Other b \<Rightarrow>
          \<lparr> res_status = 200,
            res_headers = [(''content-type'', ''application/json'')],
            res_body = map_option (JSON_stringify P) b \<rparr>)"

definition error_response :: "exn \<Rightarrow> Response" where
  "error_response e = \<lparr> res_status = 500, res_headers = [], res_body = None \<rparr>"

text \<open>
  The exported \<open>fetch\<close>: \<open>router.handle(req, ...args).then(json).catch(error)\<close>.
\<close>

definition worker_fetch ::
  "'n platform \<Rightarrow> ('f request \<Rightarrow> exn + reply) \<Rightarrow> ('f IRequest \<Rightarrow> route option)
     \<Rightarrow> 'f IRequest \<Rightarrow> Env \<Rightarrow> Response" where
  "worker_fetch P fetch route_of req env =
     (case router_handle P fetch route_of req env of
        Inl e \<Rightarrow> error_response e
      | Inr v \<Rightarrow> json_response P v)"

section \<open>Notions used to state the properties\<close>

text \<open>
  A parsed body that is an object in the sense of JavaScript (\<open>typeof\<close> gives
  \<open>object\<close> and it is not \<open>null\<close>): the values on which \<open>in\<close> does not throw.
\<close>

definition is_object :: "'n json \<Rightarrow> bool" where
  "is_object j = (case j of JObj _ \<Rightarrow> True | JArr _ \<Rightarrow> True | _ \<Rightarrow> False)"

text \<open>Truthiness of a JSON value (a number is falsy when it is zero).\<close>

fun truthy :: "'n::zero json \<Rightarrow> bool" where
  "truthy JNull = False"
| "truthy (JBool b) = b"
| "truthy (JNum n) = (n \<noteq> 0)"
| "truthy (JStr s) = (s \<noteq> [])"
| "truthy (JArr xs) = True"
| "truthy (JObj kvs) = True"

definition has_truthy_error :: "'n::zero json \<Rightarrow> bool" where
  "has_truthy_error j = (case get_prop j ''error'' of None \<Rightarrow> False | Some v \<Rightarrow> truthy v)"

text \<open>Whether the content type sends \<open>getSubtitles\<close> into its JSON branch.\<close>

definition json_content :: "reply \<Rightarrow> bool" where
  "json_content r =
     (case content_type r of None \<Rightarrow> False | Some c \<Rightarrow> startsWith c ''application/json'')"

text \<open>
  For a polled response: its parsed body, whether the pass through the loop goes
  round again, and how long it sleeps before it does.
\<close>

definition polled_body :: "'n platform \<Rightarrow> exn + reply \<Rightarrow> 'n json option" where
  "polled_body P pollingResponse =
     (case pollingResponse of Inl e \<Rightarrow> None | Inr r \<Rightarrow> JSON_parse P (body r))"

definition keeps_waiting :: "'n platform \<Rightarrow> exn + reply \<Rightarrow> bool" where
  "keeps_waiting P pollingResponse =
     (case waitForTranscript_iteration P pollingResponse of
        Continue ms \<Rightarrow> True | _ \<Rightarrow> False)"

definition pause :: "'n platform \<Rightarrow> exn + reply \<Rightarrow> nat" where
  "pause P pollingResponse =
     (case waitForTranscript_iteration P pollingResponse of
        Continue ms \<Rightarrow> ms | _ \<Rightarrow> 0)"

section \<open>A concrete service, for the examples\<close>

text \<open>
  A platform that knows the few bodies of the examples, over integer numbers, and
  the replies of a service that holds one transcript, \<open>abc123\<close>.
\<close>

definition demo_parse :: "string \<Rightarrow> int json option" where
  "demo_parse s =
     (if s = ''{\"upload_url\":\"https://cdn.example/u1\"}''
        then Some (JObj [(''upload_url'', JStr ''https://cdn.example/u1'')])
      else if s = ''{\"id\":\"abc123\",\"status\":\"queued\",\"text\":\"\"}''
        then Some (JObj [(''id'', JStr ''abc123''), (''status'', JStr ''queued''),
                         (''text'', JStr '''')])
      else if s = ''{\"id\":\"abc123\",\"status\":\"processing\",\"text\":\"\"}''
        then Some (JObj [(''id'', JStr ''abc123''), (''status'', JStr ''processing''),
                         (''text'', JStr '''')])
      else if s = ''{\"id\":\"abc123\",\"status\":\"completed\",\"text\":\"hello world\"}''
        then Some (JObj [(''id'', JStr ''abc123''), (''status'', JStr ''completed''),
                         (''text'', JStr ''hello world'')])
      else if s = ''{\"id\":\"abc123\",\"status\":\"error\",\"text\":\"\"}''
        then Some (JObj [(''id'', JStr ''abc123''), (''status'', JStr ''error''),
                         (''text'', JStr '''')])
      else if s = ''{\"error\":\"invalid api key\"}''
        then Some (JObj [(''error'', JStr ''invalid api key'')])
      else if s = ''{\"error\":\"\"}''
        then Some (JObj [(''error'', JStr '''')])
      else if s = ''{\"error\":{\"toString\":1}}''
        then Some (JObj [(''error'', JObj [(''toString'', JNum 1)])])
      else if s = ''{\"id\":\"..\",\"status\":\"queued\",\"text\":\"\"}''
        then Some (JObj [(''id'', JStr ''..''), (''status'', JStr ''queued''),
                         (''text'', JStr '''')])
      else if s = ''{\"id\":{\"toString\":1},\"status\":\"queued\",\"text\":\"\"}''
        then Some (JObj [(''id'', JObj [(''toString'', JNum 1)]),
                         (''status'', JStr ''queued''), (''text'', JStr '''')])
      else if s = ''{}'' then Some (JObj [])
      else None)"

definition demo_stringify :: "int json \<Rightarrow> string" where
  "demo_stringify j =
     (if j = JObj [(''audio_url'', JStr ''https://cdn.example/u1'')]
      then ''{\"audio_url\":\"https://cdn.example/u1\"}''
      else ''null'')"

text \<open>
  The references of the examples, resolved against a URL of the worker as the URL
  standard resolves them: a path ending in the segment \<open>..\<close> loses that segment and
  the one before it.
\<close>

definition demo_URL :: "string \<Rightarrow> string \<Rightarrow> string option" where
  "demo_URL path base =
     (if startsWith base ''https://worker.example/''
      then (if path = ''/transcript/..'' then Some ''https://worker.example/''
            else Some (''https://worker.example'' @ path))
      else None)"

definition demo_platform :: "int platform" where
  "demo_platform =
     \<lparr> JSON_parse = demo_parse, JSON_stringify = demo_stringify,
       Number_toString = (\<lambda>n. if n < 0 then ''-'' @ show_nat (nat (- n)) else show_nat (nat n)),
       URL_toString = demo_URL \<rparr>"

definition json_reply :: "nat \<Rightarrow> string \<Rightarrow> string \<Rightarrow> reply" where
  "json_reply code reason text =
     \<lparr> status = code, statusText = reason,
       content_type = Some ''application/json; charset=utf-8'', body = text \<rparr>"

definition reply_upload :: reply where
  "reply_upload = json_reply 200 ''OK'' ''{\"upload_url\":\"https://cdn.example/u1\"}''"

definition reply_queued :: reply where
  "reply_queued =
     json_reply 200 ''OK'' ''{\"id\":\"abc123\",\"status\":\"queued\",\"text\":\"\"}''"

definition reply_processing :: reply where
  "reply_processing =
     json_reply 200 ''OK'' ''{\"id\":\"abc123\",\"status\":\"processing\",\"text\":\"\"}''"

definition reply_completed :: reply where
  "reply_completed =
     json_reply 200 ''OK''
       ''{\"id\":\"abc123\",\"status\":\"completed\",\"text\":\"hello world\"}''"

definition reply_failed :: reply where
  "reply_failed =
     json_reply 200 ''OK'' ''{\"id\":\"abc123\",\"status\":\"error\",\"text\":\"\"}''"

definition reply_invalid_key :: reply where
  "reply_invalid_key = json_reply 401 ''Unauthorized'' ''{\"error\":\"invalid api key\"}''"

definition reply_empty_error :: reply where
  "reply_empty_error = json_reply 400 ''Bad Request'' ''{\"error\":\"\"}''"

definition reply_error_object :: reply where
  "reply_error_object = json_reply 400 ''Bad Request'' ''{\"error\":{\"toString\":1}}''"

definition reply_empty_object :: reply where
  "reply_empty_object = json_reply 404 ''Not Found'' ''{}''"




text \<open>A \<open>fetch\<close> that resolves to the same reply whatever the request.\<close>

definition serve :: "reply \<Rightarrow> string request \<Rightarrow> exn + reply" where
  "serve r req = Inr r"

text \<open>
  The service of the examples: it stores an upload, queues a transcript for the
  uploaded file, and reports the transcript as completed.
\<close>

definition demo_fetch :: "string request \<Rightarrow> exn + reply" where
  "demo_fetch req =
     (if req_url req = ''https://api.assemblyai.com/v2/upload'' then Inr reply_upload
      else if req_url req = ''https://api.assemblyai.com/v2/transcript'' then
        (if req_body req = Text ''{\"audio_url\":\"https://cdn.example/u1\"}''
         then Inr reply_queued else Inr reply_invalid_key)
      else if req_url req = ''https://api.assemblyai.com/v2/transcript/abc123''
        then Inr reply_completed
      else Inr reply_invalid_key)"


text \<open>Three polls: queued, processing, completed from then on.\<close>

definition demo_polls :: "nat \<Rightarrow> string request \<Rightarrow> exn + reply" where
  "demo_polls i req =
     (if i = 0 then Inr reply_queued
      else if i = 1 then Inr reply_processing
      else Inr reply_completed)"

text \<open>Polls that end in an error, and polls that meet a status the loop does not know.\<close>

definition demo_polls_failing :: "nat \<Rightarrow> string request \<Rightarrow> exn + reply" where
  "demo_polls_failing i req = (if i = 0 then Inr reply_queued else Inr reply_invalid_key)"

definition demo_polls_unknown :: "nat \<Rightarrow> string request \<Rightarrow> exn + reply" where
  "demo_polls_unknown i req = (if i = 0 then Inr reply_failed else Inr reply_completed)"

text \<open>What the SDK of the second variant answers for the one transcript.\<close>

definition demo_transcripts_get :: "string \<Rightarrow> exn + int json" where
  "demo_transcripts_get tid =
     (if tid = ''abc123''
      then Inr (JObj [(''id'', JStr ''abc123''), (''status'', JStr ''processing''),
                      (''text'', JStr [])])
      else Inl (Error ''Transcript lookup error''))"

definition demo_env :: Env where
  "demo_env = \<lparr> ASSEMBLYAI_API_KEY = ''key'' \<rparr>"


definition demo_get :: "string \<Rightarrow> string IRequest" where
  "demo_get u = \<lparr> url = u, formData = Inl TypeError \<rparr>"

definition demo_route_of :: "string IRequest \<Rightarrow> route option" where
  "demo_route_of req =
     (if url req = ''https://worker.example/'' then Some Root
      else if url req = ''https://worker.example/upload-file'' then Some UploadFile
      else if url req = ''https://worker.example/transcript/abc123''
        then Some (TranscriptId ''abc123'')
      else if url req = ''https://worker.example/transcript/nope''
        then Some (TranscriptId ''nope'')
      else None)"

section \<open>Lemmas about the client\<close>

lemma response_json_fresh:
  "response_json P (fresh r) =
     (case JSON_parse P (body r) of
        None \<Rightarrow> (Inl SyntaxError, (r, True))
      | Some j \<Rightarrow> (Inr j, (r, True)))"
  by (simp add: response_json_def fresh_def)

lemma fst_response_json_fresh:
  "fst (response_json P (fresh r)) =
     (case JSON_parse P (body r) of None \<Rightarrow> Inl SyntaxError | Some j \<Rightarrow> Inr j)"
  by (simp add: response_json_fresh split: option.splits)

lemma response_text_fresh: "fst (response_text (fresh r)) = Inr (body r)"
  by (simp add: response_text_def fresh_def)

lemma response_text_used: "fst (response_text (r, True)) = Inl TypeError"
  by (simp add: response_text_def)

lemma throwIfError_object:
  "is_object j \<Longrightarrow>
   throwIfError P j =
     (case get_prop j ''error'' of
        None \<Rightarrow> Inr ()
      | Some v \<Rightarrow>
          Inl (case ToString P v of Inl e \<Rightarrow> e | Inr m \<Rightarrow> Error m))"
  by (cases j) (simp_all add: is_object_def)

lemma throwIfError_field:
  "get_prop j ''error'' = Some v \<Longrightarrow> throwIfError P j =
      Inl (case ToString P v of Inl e \<Rightarrow> e | Inr m \<Rightarrow> Error m)"
  by (cases j) simp_all

lemma throwIfError_Inr:
  "throwIfError P j = Inr u \<Longrightarrow> is_object j \<and> get_prop j ''error'' = None"
  by (cases j) (simp_all add: is_object_def split: option.splits)

lemma uploadFile_body:
  assumes "fetch (uploadFile_request k f) = Inr r" and "JSON_parse P (body r) = Some j"
    and "is_object j"
  shows "uploadFile P fetch k (FFile f) =
     (case get_prop j ''error'' of
        None \<Rightarrow> Inr (get_prop j ''upload_url'')
      | Some v \<Rightarrow>
          Inl (case ToString P v of Inl e \<Rightarrow> e | Inr m \<Rightarrow> Error m))"
  using assms
  by (simp add: uploadFile_def response_json_fresh throwIfError_object split: option.splits)

lemma createTranscript_body:
  assumes "fetch (createTranscript_request P k params) = Inr r"
    and "JSON_parse P (body r) = Some j" and "is_object j"
  shows "createTranscript P fetch k params =
     (case get_prop j ''error'' of
        None \<Rightarrow> Inr j
      | Some v \<Rightarrow>
          Inl (case ToString P v of Inl e \<Rightarrow> e | Inr m \<Rightarrow> Error m))"
  using assms
  by (simp add: createTranscript_def response_json_fresh throwIfError_object
        split: option.splits)

lemma getTranscript_body:
  assumes "fetch (getTranscript_request k tid) = Inr r"
    and "JSON_parse P (body r) = Some j" and "is_object j"
  shows "getTranscript P fetch k tid =
     (case get_prop j ''error'' of
        None \<Rightarrow> Inr j
      | Some v \<Rightarrow>
          Inl (case ToString P v of Inl e \<Rightarrow> e | Inr m \<Rightarrow> Error m))"
  using assms
  by (simp add: getTranscript_def response_json_fresh throwIfError_object
        split: option.splits)

lemma iteration_body:
  assumes "polled_body P fr = Some j" and "is_object j" and "get_prop j ''error'' = None"
  shows "waitForTranscript_iteration P fr =
     (if get_prop j ''status'' = Some (JStr ''queued'')
         \<or> get_prop j ''status'' = Some (JStr ''processing'')
      then Continue 3000
      else if get_prop j ''status'' = Some (JStr ''completed'') then Return j
      else Continue 0)"
  using assms
  by (cases fr)
     (simp_all add: polled_body_def waitForTranscript_iteration_def response_json_fresh
        throwIfError_object Let_def)

lemma iteration_error:
  assumes "polled_body P fr = Some j" and "get_prop j ''error'' = Some v"
  shows "waitForTranscript_iteration P fr =
      Throw (case ToString P v of Inl e \<Rightarrow> e | Inr m \<Rightarrow> Error m)"
  using assms
  by (cases fr)
     (simp_all add: polled_body_def waitForTranscript_iteration_def response_json_fresh
        throwIfError_field)

lemma iteration_Return:
  assumes "waitForTranscript_iteration P fr = Return t"
  shows "polled_body P fr = Some t \<and> is_object t \<and> get_prop t ''error'' = None
         \<and> get_prop t ''status'' = Some (JStr ''completed'')"
proof (cases fr)
  case (Inl e)
  with assms show ?thesis by (simp add: waitForTranscript_iteration_def)
next
  case fr: (Inr r)
  show ?thesis
  proof (cases "JSON_parse P (body r)")
    case None
    with assms fr show ?thesis
      by (simp add: waitForTranscript_iteration_def response_json_fresh)
  next
    case parsed: (Some j)
    show ?thesis
    proof (cases "throwIfError P j")
      case (Inl e)
      with assms fr parsed show ?thesis
        by (simp add: waitForTranscript_iteration_def response_json_fresh)
    next
      case (Inr u)
      from throwIfError_Inr [OF this]
      have obj: "is_object j" and ne: "get_prop j ''error'' = None"
        by simp_all
      from assms fr parsed Inr obj ne show ?thesis
        by (simp add: waitForTranscript_iteration_def response_json_fresh polled_body_def
              Let_def split: if_splits)
    qed
  qed
qed

lemma getSubtitles_ok:
  assumes "fetch (getSubtitles_request k tid fmt) = Inr r" and "status r = 200"
  shows "getSubtitles P fetch k tid fmt = Inr (body r)"
  using assms by (simp add: getSubtitles_def response_text_fresh)

lemma getSubtitles_generic:
  assumes "fetch (getSubtitles_request k tid fmt) = Inr r" and "status r \<noteq> 200"
    and "\<not> json_content r"
  shows "getSubtitles P fetch k tid fmt =
     Inl (Error (''Get Subtitle request returned status '' @ show_nat (status r)
                 @ '' '' @ statusText r))"
  using assms by (simp add: getSubtitles_def json_content_def)

lemma getSubtitles_json:
  assumes "fetch (getSubtitles_request k tid fmt) = Inr r" and "status r \<noteq> 200"
    and "json_content r"
  shows "getSubtitles P fetch k tid fmt =
     (case JSON_parse P (body r) of
        None \<Rightarrow> Inl SyntaxError
      | Some j \<Rightarrow>
          (case throwIfError P j of Inl e \<Rightarrow> Inl e | Inr u \<Rightarrow> Inl TypeError))"
  using assms
  by (simp add: getSubtitles_def json_content_def response_json_fresh response_text_used
        split: option.splits sum.splits)

lemma getSubtitles_fails:
  assumes "fetch (getSubtitles_request k tid fmt) = Inr r" and "status r \<noteq> 200"
  shows "isl (getSubtitles P fetch k tid fmt)"
proof (cases "json_content r")
  case True
  with assms have "getSubtitles P fetch k tid fmt =
     (case JSON_parse P (body r) of
        None \<Rightarrow> Inl SyntaxError
      | Some j \<Rightarrow>
          (case throwIfError P j of Inl e \<Rightarrow> Inl e | Inr u \<Rightarrow> Inl TypeError))"
    by (rule getSubtitles_json)
  then show ?thesis
    by (simp split: option.splits sum.splits)
next
  case False
  with assms have "getSubtitles P fetch k tid fmt =
     Inl (Error (''Get Subtitle request returned status '' @ show_nat (status r)
                 @ '' '' @ statusText r))"
    by (rule getSubtitles_generic)
  then show ?thesis by simp
qed

section \<open>The error check of the client\<close>

text \<open>
  C1, as the code has it. For \<open>uploadFile\<close>, \<open>createTranscript\<close>, \<open>getTranscript\<close> and one
  pass of \<open>waitForTranscript\<close>, on a response whose body parses to a JSON object: the
  operation raises if and only if the object has an \<open>error\<close> property, whatever the
  value of the property (truthy or not). What is raised is the error whose message
  is the string conversion of that value, which is the value itself when it is a
  string; where the value has no string conversion, it is the TypeError of the
  conversion. In the JSON branch of \<open>getSubtitles\<close> the same is raised when the
  property is there.
\<close>

theorem C1_error_field_raises:
  assumes "JSON_parse P (body r) = Some j" and "is_object j"
  shows
    "(fetch (uploadFile_request k f) = Inr r \<longrightarrow>
        (isl (uploadFile P fetch k (FFile f)) \<longleftrightarrow> get_prop j ''error'' \<noteq> None) \<and>
        (\<forall>v. get_prop j ''error'' = Some v \<longrightarrow>
           uploadFile P fetch k (FFile f) =
               Inl (case ToString P v of Inl e \<Rightarrow> e | Inr m \<Rightarrow> Error m))) \<and>
     (fetch (createTranscript_request P k params) = Inr r \<longrightarrow>
        (isl (createTranscript P fetch k params) \<longleftrightarrow> get_prop j ''error'' \<noteq> None) \<and>
        (\<forall>v. get_prop j ''error'' = Some v \<longrightarrow>
           createTranscript P fetch k params =
               Inl (case ToString P v of Inl e \<Rightarrow> e | Inr m \<Rightarrow> Error m))) \<and>
     (fetch (getTranscript_request k tid) = Inr r \<longrightarrow>
        (isl (getTranscript P fetch k tid) \<longleftrightarrow> get_prop j ''error'' \<noteq> None) \<and>
        (\<forall>v. get_prop j ''error'' = Some v \<longrightarrow>
           getTranscript P fetch k tid =
               Inl (case ToString P v of Inl e \<Rightarrow> e | Inr m \<Rightarrow> Error m))) \<and>
     ((\<exists>e. waitForTranscript_iteration P (Inr r) = Throw e) \<longleftrightarrow>
        get_prop j ''error'' \<noteq> None) \<and>
     (\<forall>v. get_prop j ''error'' = Some v \<longrightarrow>
        waitForTranscript_iteration P (Inr r) =
            Throw (case ToString P v of Inl e \<Rightarrow> e | Inr m \<Rightarrow> Error m)) \<and>
     (fetch (getSubtitles_request k tid fmt) = Inr r \<longrightarrow> status r \<noteq> 200 \<longrightarrow>
      json_content r \<longrightarrow>
        (\<forall>v. get_prop j ''error'' = Some v \<longrightarrow>
           getSubtitles P fetch k tid fmt =
               Inl (case ToString P v of Inl e \<Rightarrow> e | Inr m \<Rightarrow> Error m))) \<and>
     (\<forall>m. ToString P (JStr m) = Inr m)"
proof -
  have up: "fetch (uploadFile_request k f) = Inr r \<Longrightarrow>
      (isl (uploadFile P fetch k (FFile f)) \<longleftrightarrow> get_prop j ''error'' \<noteq> None) \<and>
      (\<forall>v. get_prop j ''error'' = Some v \<longrightarrow>
         uploadFile P fetch k (FFile f) =
             Inl (case ToString P v of Inl e \<Rightarrow> e | Inr m \<Rightarrow> Error m))"
    using assms by (simp add: uploadFile_body split: option.splits)
  have cr: "fetch (createTranscript_request P k params) = Inr r \<Longrightarrow>
      (isl (createTranscript P fetch k params) \<longleftrightarrow> get_prop j ''error'' \<noteq> None) \<and>
      (\<forall>v. get_prop j ''error'' = Some v \<longrightarrow>
         createTranscript P fetch k params =
             Inl (case ToString P v of Inl e \<Rightarrow> e | Inr m \<Rightarrow> Error m))"
    using assms by (simp add: createTranscript_body split: option.splits)
  have ge: "fetch (getTranscript_request k tid) = Inr r \<Longrightarrow>
      (isl (getTranscript P fetch k tid) \<longleftrightarrow> get_prop j ''error'' \<noteq> None) \<and>
      (\<forall>v. get_prop j ''error'' = Some v \<longrightarrow>
         getTranscript P fetch k tid =
             Inl (case ToString P v of Inl e \<Rightarrow> e | Inr m \<Rightarrow> Error m))"
    using assms by (simp add: getTranscript_body split: option.splits)
  have pb: "polled_body P (Inr r) = Some j"
    using assms by (simp add: polled_body_def)
  have it1: "waitForTranscript_iteration P (Inr r) =
      Throw (case ToString P v of Inl e \<Rightarrow> e | Inr m \<Rightarrow> Error m)"
    if "get_prop j ''error'' = Some v" for v
    using pb that by (rule iteration_error)
  have it2: "waitForTranscript_iteration P (Inr r) \<noteq> Throw e"
    if "get_prop j ''error'' = None" for e
    using iteration_body [OF pb assms(2) that] by simp
  have it: "(\<exists>e. waitForTranscript_iteration P (Inr r) = Throw e) \<longleftrightarrow>
      get_prop j ''error'' \<noteq> None"
    using it1 it2 by (cases "get_prop j ''error''") auto
  have su: "getSubtitles P fetch k tid fmt =
      Inl (case ToString P v of Inl e \<Rightarrow> e | Inr m \<Rightarrow> Error m)"
    if "fetch (getSubtitles_request k tid fmt) = Inr r" "status r \<noteq> 200" "json_content r"
      "get_prop j ''error'' = Some v" for v
  proof -
    from that(1-3) have "getSubtitles P fetch k tid fmt =
       (case JSON_parse P (body r) of
          None \<Rightarrow> Inl SyntaxError
        | Some j \<Rightarrow>
            (case throwIfError P j of Inl e \<Rightarrow> Inl e | Inr u \<Rightarrow> Inl TypeError))"
      by (rule getSubtitles_json)
    with assms(1) that(4) show ?thesis by (simp add: throwIfError_field)
  qed
  from up cr ge it it1 su show ?thesis by simp
qed

theorem C1_error_field_raises_witness:
  "uploadFile demo_platform (serve reply_invalid_key) ''key'' (FFile ''talk.mp3'')
     = Inl (Error ''invalid api key'') \<and>
   createTranscript demo_platform (serve reply_invalid_key) ''key''
       [(''audio_url'', Some (JStr ''https://cdn.example/u1''))]
     = Inl (Error ''invalid api key'') \<and>
   getTranscript demo_platform (serve reply_invalid_key) ''key'' ''abc123''
     = Inl (Error ''invalid api key'') \<and>
   waitForTranscript_iteration demo_platform (Inr reply_invalid_key)
     = Throw (Error ''invalid api key'') \<and>
   getSubtitles demo_platform (serve reply_invalid_key) ''key'' ''abc123'' Srt
     = Inl (Error ''invalid api key'') \<and>
   getTranscript demo_platform (serve reply_error_object) ''key'' ''abc123'' = Inl TypeError"
proof -
  have parsed: "JSON_parse demo_platform (body reply_invalid_key)
      = Some (JObj [(''error'', JStr ''invalid api key'')])"
    by (simp add: demo_platform_def demo_parse_def reply_invalid_key_def json_reply_def)
  have parsed': "JSON_parse demo_platform (body reply_error_object)
      = Some (JObj [(''error'', JObj [(''toString'', JNum 1)])])"
    by (simp add: demo_platform_def demo_parse_def reply_error_object_def json_reply_def)
  have obj': "is_object (JObj [(''error'', JObj [(''toString'', JNum 1)])] :: int json)"
    by (simp add: is_object_def)
  from C1_error_field_raises
    [where P = demo_platform and r = reply_error_object
       and j = "JObj [(''error'', JObj [(''toString'', JNum 1)])]"
       and fetch = "serve reply_error_object" and k = "''key''" and tid = "''abc123''",
     OF parsed' obj']
  have unconvertible:
    "getTranscript demo_platform (serve reply_error_object) ''key'' ''abc123'' = Inl TypeError"
    by (simp add: serve_def)
  have obj: "is_object (JObj [(''error'', JStr ''invalid api key'')] :: int json)"
    by (simp add: is_object_def)
  have js: "json_content reply_invalid_key" "status reply_invalid_key \<noteq> 200"
    by (simp_all add: json_content_def startsWith_def reply_invalid_key_def json_reply_def)
  from C1_error_field_raises
    [where P = demo_platform and r = reply_invalid_key
       and j = "JObj [(''error'', JStr ''invalid api key'')]"
       and fetch = "serve reply_invalid_key" and k = "''key''" and f = "''talk.mp3''"
       and params = "[(''audio_url'', Some (JStr ''https://cdn.example/u1''))]"
       and tid = "''abc123''" and fmt = Srt, OF parsed obj] js unconvertible
  show ?thesis by (simp add: serve_def)
qed

text \<open>
  C1 as the spec words it fails: a body whose \<open>error\<close> property is the empty string
  has no truthy \<open>error\<close>, and \<open>getTranscript\<close> raises on it all the same.
\<close>

theorem C1_counterexample:
  "JSON_parse demo_platform (body reply_empty_error) = Some (JObj [(''error'', JStr '''')]) \<and>
   \<not> (isl (getTranscript demo_platform (serve reply_empty_error) ''key'' ''abc123'')
        \<longleftrightarrow> has_truthy_error (JObj [(''error'', JStr '''')] :: int json)) \<and>
   getTranscript demo_platform (serve reply_empty_error) ''key'' ''abc123'' = Inl (Error '''')"
  by (simp add: demo_platform_def demo_parse_def reply_empty_error_def json_reply_def
        has_truthy_error_def getTranscript_def serve_def response_json_fresh)

section \<open>The status code is read by \<open>getSubtitles\<close> alone\<close>

text \<open>
  C8. For \<open>uploadFile\<close>, \<open>createTranscript\<close> and \<open>getTranscript\<close>: two responses with
  the same body give the same result, a value or an error, whatever their status
  codes (and whatever else differs between them).
\<close>

theorem C8_status_not_inspected:
  assumes "body r1 = body r2"
  shows
    "(fetch1 (uploadFile_request k f) = Inr r1 \<longrightarrow> fetch2 (uploadFile_request k f) = Inr r2 \<longrightarrow>
        uploadFile P fetch1 k (FFile f) = uploadFile P fetch2 k (FFile f)) \<and>
     (fetch1 (createTranscript_request P k params) = Inr r1 \<longrightarrow>
      fetch2 (createTranscript_request P k params) = Inr r2 \<longrightarrow>
        createTranscript P fetch1 k params = createTranscript P fetch2 k params) \<and>
     (fetch1 (getTranscript_request k tid) = Inr r1 \<longrightarrow>
      fetch2 (getTranscript_request k tid) = Inr r2 \<longrightarrow>
        getTranscript P fetch1 k tid = getTranscript P fetch2 k tid)"
  using assms
  by (simp add: uploadFile_def createTranscript_def getTranscript_def
        fst_response_json_fresh)

theorem C8_status_not_inspected_witness:
  "status reply_completed \<noteq> status (reply_completed \<lparr> status := 500 \<rparr>) \<and>
   body reply_completed = body (reply_completed \<lparr> status := 500 \<rparr>) \<and>
   getTranscript demo_platform (serve reply_completed) ''key'' ''abc123''
     = getTranscript demo_platform (serve (reply_completed \<lparr> status := 500 \<rparr>)) ''key'' ''abc123'' \<and>
   uploadFile demo_platform (serve reply_completed) ''key'' (FFile ''talk.mp3'')
     = uploadFile demo_platform (serve (reply_completed \<lparr> status := 500 \<rparr>)) ''key''
         (FFile ''talk.mp3'') \<and>
   createTranscript demo_platform (serve reply_completed) ''key'' [(''audio_url'', None)]
     = createTranscript demo_platform (serve (reply_completed \<lparr> status := 500 \<rparr>)) ''key''
         [(''audio_url'', None)]"
proof -
  have same: "body reply_completed = body (reply_completed \<lparr> status := 500 \<rparr>)"
    by simp
  have differ: "status reply_completed \<noteq> status (reply_completed \<lparr> status := 500 \<rparr>)"
    by (simp add: reply_completed_def json_reply_def)
  from C8_status_not_inspected
    [where ?r1.0 = reply_completed and ?r2.0 = "reply_completed \<lparr> status := 500 \<rparr>"
       and ?fetch1.0 = "serve reply_completed"
       and ?fetch2.0 = "serve (reply_completed \<lparr> status := 500 \<rparr>)"
       and P = demo_platform and k = "''key''" and f = "''talk.mp3''"
       and params = "[(''audio_url'', None)]" and tid = "''abc123''",
     OF same] differ
  show ?thesis by (simp add: serve_def)
qed

section \<open>Subtitles\<close>

text \<open>
  C6. When the status of the response is 200, \<open>getSubtitles\<close> returns the text of the
  body as it came, whatever it is and whatever \<open>JSON.parse\<close> would make of it: the
  body is not parsed and no error check is applied.
\<close>

theorem C6_subtitles_raw_text:
  assumes "fetch (getSubtitles_request k tid fmt) = Inr r" and "status r = 200"
  shows "getSubtitles P fetch k tid fmt = Inr (body r)"
  using assms by (rule getSubtitles_ok)

theorem C6_subtitles_raw_text_witness:
  "getSubtitles demo_platform
     (serve (json_reply 200 ''OK'' ''{\"error\":\"invalid api key\"}'')) ''key'' ''abc123'' Vtt
   = Inr ''{\"error\":\"invalid api key\"}''"
  using C6_subtitles_raw_text
    [where fetch = "serve (json_reply 200 ''OK'' ''{\"error\":\"invalid api key\"}'')"
       and r = "json_reply 200 ''OK'' ''{\"error\":\"invalid api key\"}''"
       and P = demo_platform and k = "''key''" and tid = "''abc123''" and fmt = Vtt]
  by (simp add: serve_def json_reply_def)



text \<open>
  C10. When the status of the response is not 200, \<open>getSubtitles\<close> returns no value
  at all. In particular, when the content type is JSON and the parsed body is an
  object without \<open>error\<close>, the check lets it pass, and the read of the text that
  follows fails with a TypeError, for the body was consumed by the JSON parse.
\<close>

theorem C10_subtitles_non_200_never_returns:
  assumes "fetch (getSubtitles_request k tid fmt) = Inr r" and "status r \<noteq> 200"
  shows
    "isl (getSubtitles P fetch k tid fmt) \<and>
     (json_content r \<longrightarrow> JSON_parse P (body r) = Some j \<longrightarrow> is_object j \<longrightarrow>
      get_prop j ''error'' = None \<longrightarrow>
        getSubtitles P fetch k tid fmt = Inl TypeError)"
proof (intro conjI impI)
  from assms show "isl (getSubtitles P fetch k tid fmt)"
    by (rule getSubtitles_fails)
next
  assume "json_content r" and p: "JSON_parse P (body r) = Some j"
    and o: "is_object j" and e: "get_prop j ''error'' = None"
  with assms have "getSubtitles P fetch k tid fmt =
     (case JSON_parse P (body r) of
        None \<Rightarrow> Inl SyntaxError
      | Some j \<Rightarrow>
          (case throwIfError P j of Inl e \<Rightarrow> Inl e | Inr u \<Rightarrow> Inl TypeError))"
    by (intro getSubtitles_json)
  with p o e show "getSubtitles P fetch k tid fmt = Inl TypeError"
    by (simp add: throwIfError_object)
qed

theorem C10_subtitles_non_200_never_returns_witness:
  "status reply_empty_object = 404 \<and> json_content reply_empty_object \<and>
   JSON_parse demo_platform (body reply_empty_object) = Some (JObj []) \<and>
   getSubtitles demo_platform (serve reply_empty_object) ''key'' ''abc123'' Srt = Inl TypeError"
proof -
  have a: "serve reply_empty_object (getSubtitles_request ''key'' ''abc123'' Srt)
      = Inr reply_empty_object" "status reply_empty_object \<noteq> 200"
    by (simp_all add: serve_def reply_empty_object_def json_reply_def)
  have b: "json_content reply_empty_object"
    "JSON_parse demo_platform (body reply_empty_object) = Some (JObj [])"
    "is_object (JObj [] :: int json)" "get_prop (JObj [] :: int json) ''error'' = None"
    "status reply_empty_object = 404"
    by (simp_all add: reply_empty_object_def json_reply_def json_content_def startsWith_def
          demo_platform_def demo_parse_def is_object_def)
  from C10_subtitles_non_200_never_returns
    [where fetch = "serve reply_empty_object" and r = reply_empty_object and P = demo_platform
       and j = "JObj []" and k = "''key''" and tid = "''abc123''" and fmt = Srt, OF a] b
  show ?thesis by simp
qed

section \<open>The polling loop\<close>

lemma loop_Return:
  "waitForTranscript_iteration P (fetch i (polling_request k tid)) = Return t \<Longrightarrow>
   waitForTranscript_loop P fetch k tid i s = Some (Inr t, s)"
  by (subst waitForTranscript_loop.simps) simp

lemma loop_Throw:
  "waitForTranscript_iteration P (fetch i (polling_request k tid)) = Throw e \<Longrightarrow>
   waitForTranscript_loop P fetch k tid i s = Some (Inl e, s)"
  by (subst waitForTranscript_loop.simps) simp

lemma loop_Continue:
  "waitForTranscript_iteration P (fetch i (polling_request k tid)) = Continue ms \<Longrightarrow>
   waitForTranscript_loop P fetch k tid i s =
   waitForTranscript_loop P fetch k tid (Suc i) (s + ms)"
  by (subst waitForTranscript_loop.simps) simp

lemma keeps_waiting_Continue:
  "keeps_waiting P fr \<Longrightarrow> waitForTranscript_iteration P fr = Continue (pause P fr)"
  by (cases "waitForTranscript_iteration P fr") (simp_all add: keeps_waiting_def pause_def)

text \<open>Passes that go round again are skipped; the sleeps add up.\<close>

lemma loop_skip:
  "(\<forall>j<n. keeps_waiting P (fetch (i + j) (polling_request k tid))) \<Longrightarrow>
   waitForTranscript_loop P fetch k tid i s =
   waitForTranscript_loop P fetch k tid (i + n)
     (s + (\<Sum>j<n. pause P (fetch (i + j) (polling_request k tid))))"
proof (induction n)
  case 0
  show ?case by simp
next
  case (Suc n)
  then have "keeps_waiting P (fetch (i + n) (polling_request k tid))" by simp
  then have "waitForTranscript_iteration P (fetch (i + n) (polling_request k tid)) =
             Continue (pause P (fetch (i + n) (polling_request k tid)))"
    by (rule keeps_waiting_Continue)
  then have "waitForTranscript_loop P fetch k tid (i + n) s' =
             waitForTranscript_loop P fetch k tid (Suc (i + n))
               (s' + pause P (fetch (i + n) (polling_request k tid)))" for s'
    by (subst waitForTranscript_loop.simps) simp
  with Suc show ?case by (simp add: add.assoc)
qed

text \<open>
  Where the loop leaves, it leaves in some pass \<open>n\<close> after \<open>n\<close> passes that went
  round again; the result is that of pass \<open>n\<close>.
\<close>

lemma loop_Some:
  assumes "waitForTranscript_loop P fetch k tid i s = Some y"
  shows "\<exists>n. (\<forall>j<n. keeps_waiting P (fetch (i + j) (polling_request k tid))) \<and>
             (case waitForTranscript_iteration P (fetch (i + n) (polling_request k tid)) of
                Return t \<Rightarrow> fst y = Inr t
              | Throw e \<Rightarrow> fst y = Inl e
              | Continue ms \<Rightarrow> False) \<and>
             snd y = s + (\<Sum>j<n. pause P (fetch (i + j) (polling_request k tid)))"
proof -
  define Q where "Q =
    (\<lambda>P (fetch :: nat \<Rightarrow> 'b request \<Rightarrow> exn + reply) k tid i s (y :: (exn + 'a json) \<times> nat).
       \<exists>n. (\<forall>j<n. keeps_waiting P (fetch (i + j) (polling_request k tid))) \<and>
             (case waitForTranscript_iteration P (fetch (i + n) (polling_request k tid)) of
                Return t \<Rightarrow> fst y = Inr t
              | Throw e \<Rightarrow> fst y = Inl e
              | Continue ms \<Rightarrow> False) \<and>
             snd y = s + (\<Sum>j<n. pause P (fetch (i + j) (polling_request k tid))))"
  have "Q P fetch k tid i s y"
  proof (rule waitForTranscript_loop.raw_induct
      [where Pa = "\<lambda>(((((P, fetch), k), tid), i), s) y. Q P fetch k tid i s y", simplified,
       OF _ assms])
    fix loop :: "'a platform \<Rightarrow> (nat \<Rightarrow> 'b request \<Rightarrow> exn + reply) \<Rightarrow> string \<Rightarrow> string
         \<Rightarrow> nat \<Rightarrow> nat \<Rightarrow> ((exn + 'a json) \<times> nat) option"
      and P fetch k tid i s y
    assume IH: "\<And>P fetch k tid i s y. loop P fetch k tid i s = Some y \<Longrightarrow> Q P fetch k tid i s y"
      and step: "(case waitForTranscript_iteration P (fetch i (polling_request k tid)) of
          Return transcript \<Rightarrow> Some (Inr transcript, s)
        | Throw e \<Rightarrow> Some (Inl e, s)
        | Continue ms \<Rightarrow> loop P fetch k tid (Suc i) (s + ms)) = Some y"
    show "Q P fetch k tid i s y"
    proof (cases "waitForTranscript_iteration P (fetch i (polling_request k tid))")
      case (Return t)
      with step show ?thesis unfolding Q_def by (intro exI [of _ 0]) auto
    next
      case (Throw e)
      with step show ?thesis unfolding Q_def by (intro exI [of _ 0]) auto
    next
      case (Continue ms)
      with step have "loop P fetch k tid (Suc i) (s + ms) = Some y" by simp
      from IH [OF this] obtain n where
        n: "\<forall>j<n. keeps_waiting P (fetch (Suc i + j) (polling_request k tid))"
           "(case waitForTranscript_iteration P (fetch (Suc i + n) (polling_request k tid)) of
                  Return t \<Rightarrow> fst y = Inr t
                | Throw e \<Rightarrow> fst y = Inl e
                | Continue ms \<Rightarrow> False)"
           "snd y = s + ms + (\<Sum>j<n. pause P (fetch (Suc i + j) (polling_request k tid)))"
        unfolding Q_def by blast
      have kw: "keeps_waiting P (fetch i (polling_request k tid))"
        and pa: "pause P (fetch i (polling_request k tid)) = ms"
        using Continue by (simp_all add: keeps_waiting_def pause_def)
      have "\<forall>j<Suc n. keeps_waiting P (fetch (i + j) (polling_request k tid))"
      proof (intro allI impI)
        fix j assume "j < Suc n"
        then show "keeps_waiting P (fetch (i + j) (polling_request k tid))"
          using n(1) kw by (cases j) simp_all
      qed
      moreover
      have "snd y = s + (\<Sum>j<Suc n. pause P (fetch (i + j) (polling_request k tid)))"
        using n(3) pa by (simp add: sum.lessThan_Suc_shift del: sum.lessThan_Suc)
      ultimately show ?thesis
        unfolding Q_def using n(2) by (intro exI [of _ "Suc n"]) simp
    qed
  qed
  then show ?thesis by (simp add: Q_def)
qed

lemma wait_leaves:
  assumes "\<forall>i<n. keeps_waiting P (fetch i (polling_request k tid))"
  shows "waitForTranscript P fetch k tid =
     waitForTranscript_loop P fetch k tid n
       (\<Sum>i<n. pause P (fetch i (polling_request k tid)))"
  using loop_skip [of n P fetch 0 k tid 0] assms by (simp add: waitForTranscript_def)

lemma wait_Some:
  assumes "waitForTranscript P fetch k tid = Some y"
  shows "\<exists>n. (\<forall>i<n. keeps_waiting P (fetch i (polling_request k tid))) \<and>
             (case waitForTranscript_iteration P (fetch n (polling_request k tid)) of
                Return t \<Rightarrow> fst y = Inr t
              | Throw e \<Rightarrow> fst y = Inl e
              | Continue ms \<Rightarrow> False)"
proof -
  from assms have "waitForTranscript_loop P fetch k tid 0 0 = Some y"
    by (simp add: waitForTranscript_def)
  from loop_Some [OF this] show ?thesis by auto
qed

text \<open>
  C2. \<open>waitForTranscript\<close> returns only a transcript whose status is \<open>completed\<close>,
  and only the parsed body of a poll that all earlier polls led to. After polls
  that keep the loop waiting, a poll whose body has status \<open>completed\<close> (and no
  \<open>error\<close>) makes the call return that body, and a poll whose body has an \<open>error\<close>
  makes it raise at once (the error with the string conversion of the value as its
  message, or the TypeError of a conversion that fails); the time slept is the sum of
  the pauses of the earlier polls, and a poll with status \<open>queued\<close> or \<open>processing\<close>
  pauses for 3000 milliseconds. If every poll keeps the loop waiting, the call never
  returns.
\<close>

theorem C2_waitForTranscript:
  "(waitForTranscript P fetch k tid = Some (Inr t, ms) \<longrightarrow>
      get_prop t ''status'' = Some (JStr ''completed'') \<and>
      (\<exists>n. polled_body P (fetch n (polling_request k tid)) = Some t \<and>
           (\<forall>i<n. keeps_waiting P (fetch i (polling_request k tid))))) \<and>
   ((\<forall>i<n. keeps_waiting P (fetch i (polling_request k tid))) \<longrightarrow>
      (\<forall>j. polled_body P (fetch n (polling_request k tid)) = Some j \<longrightarrow> is_object j \<longrightarrow>
           get_prop j ''error'' = None \<longrightarrow>
           get_prop j ''status'' = Some (JStr ''completed'') \<longrightarrow>
             waitForTranscript P fetch k tid =
               Some (Inr j, \<Sum>i<n. pause P (fetch i (polling_request k tid)))) \<and>
      (\<forall>j v. polled_body P (fetch n (polling_request k tid)) = Some j \<longrightarrow>
           get_prop j ''error'' = Some v \<longrightarrow>
             waitForTranscript P fetch k tid =
               Some (Inl (case ToString P v of Inl e \<Rightarrow> e | Inr m \<Rightarrow> Error m),
                     \<Sum>i<n. pause P (fetch i (polling_request k tid))))) \<and>
   (\<forall>j. polled_body P fr = Some j \<longrightarrow> is_object j \<longrightarrow> get_prop j ''error'' = None \<longrightarrow>
        (get_prop j ''status'' = Some (JStr ''queued'')
         \<or> get_prop j ''status'' = Some (JStr ''processing'')) \<longrightarrow>
          keeps_waiting P fr \<and> pause P fr = 3000) \<and>
   ((\<forall>i. keeps_waiting P (fetch i (polling_request k tid))) \<longrightarrow>
      waitForTranscript P fetch k tid = None)"
proof -
  let ?req = "polling_request k tid"
  have only: "get_prop t ''status'' = Some (JStr ''completed'') \<and>
      (\<exists>n. polled_body P (fetch n ?req) = Some t \<and> (\<forall>i<n. keeps_waiting P (fetch i ?req)))"
    if "waitForTranscript P fetch k tid = Some (Inr t, ms)"
  proof -
    from wait_Some [OF that] obtain n where
      pre: "\<forall>i<n. keeps_waiting P (fetch i ?req)"
      and fin: "(case waitForTranscript_iteration P (fetch n ?req) of
                   Return t' \<Rightarrow> fst (Inr t :: exn + 'a json, ms) = Inr t'
                 | Throw e \<Rightarrow> fst (Inr t :: exn + 'a json, ms) = Inl e
                 | Continue ms \<Rightarrow> False)"
      by blast
    from fin have "waitForTranscript_iteration P (fetch n ?req) = Return t"
      by (cases "waitForTranscript_iteration P (fetch n ?req)") simp_all
    from iteration_Return [OF this] pre show ?thesis by blast
  qed
  have ret: "waitForTranscript P fetch k tid = Some (Inr j, \<Sum>i<n. pause P (fetch i ?req))"
    if pre: "\<forall>i<n. keeps_waiting P (fetch i ?req)"
      and b: "polled_body P (fetch n ?req) = Some j" "is_object j"
        "get_prop j ''error'' = None" "get_prop j ''status'' = Some (JStr ''completed'')"
    for j
  proof -
    have "waitForTranscript_iteration P (fetch n ?req) = Return j"
      using iteration_body [OF b(1) b(2) b(3)] b(4) by simp
    then have "waitForTranscript_loop P fetch k tid n s = Some (Inr j, s)" for s
      by (rule loop_Return)
    with wait_leaves [where P = P and fetch = fetch and k = k and tid = tid and n = n, OF pre]
    show ?thesis by simp
  qed
  have thr: "waitForTranscript P fetch k tid =
      Some (Inl (case ToString P v of Inl e \<Rightarrow> e | Inr m \<Rightarrow> Error m),
            \<Sum>i<n. pause P (fetch i ?req))"
    if pre: "\<forall>i<n. keeps_waiting P (fetch i ?req)"
      and b: "polled_body P (fetch n ?req) = Some j" "get_prop j ''error'' = Some v"
    for j v
  proof -
    have "waitForTranscript_iteration P (fetch n ?req) =
        Throw (case ToString P v of Inl e \<Rightarrow> e | Inr m \<Rightarrow> Error m)"
      using b by (rule iteration_error)
    then have "waitForTranscript_loop P fetch k tid n s =
        Some (Inl (case ToString P v of Inl e \<Rightarrow> e | Inr m \<Rightarrow> Error m), s)"
      for s
      by (rule loop_Throw)
    with wait_leaves [where P = P and fetch = fetch and k = k and tid = tid and n = n, OF pre]
    show ?thesis by simp
  qed
  have slp: "keeps_waiting P fr \<and> pause P fr = 3000"
    if "polled_body P fr = Some j" "is_object j" "get_prop j ''error'' = None"
      "get_prop j ''status'' = Some (JStr ''queued'')
       \<or> get_prop j ''status'' = Some (JStr ''processing'')"
    for j
    using iteration_body [OF that(1) that(2) that(3)] that(4)
    by (simp add: keeps_waiting_def pause_def)
  have never: "waitForTranscript P fetch k tid = None"
    if all: "\<forall>i. keeps_waiting P (fetch i ?req)"
  proof (cases "waitForTranscript P fetch k tid")
    case None
    then show ?thesis .
  next
    case (Some y)
    from wait_Some [OF this] obtain n where
      "(case waitForTranscript_iteration P (fetch n ?req) of
          Return t \<Rightarrow> fst y = Inr t | Throw e \<Rightarrow> fst y = Inl e | Continue ms \<Rightarrow> False)"
      by blast
    moreover from all have "keeps_waiting P (fetch n ?req)" by simp
    ultimately show ?thesis
      by (cases "waitForTranscript_iteration P (fetch n ?req)")
         (simp_all add: keeps_waiting_def)
  qed
  from only ret thr slp never show ?thesis by blast
qed

theorem C2_waitForTranscript_witness:
  "waitForTranscript demo_platform demo_polls ''key'' ''abc123'' =
     Some (Inr (JObj [(''id'', JStr ''abc123''), (''status'', JStr ''completed''),
                      (''text'', JStr ''hello world'')]), 6000) \<and>
   waitForTranscript demo_platform demo_polls_failing ''key'' ''abc123'' =
     Some (Inl (Error ''invalid api key''), 3000)"
proof -
  let ?req = "polling_request ''key'' ''abc123'' :: string request"
  let ?done = "JObj [(''id'', JStr ''abc123''), (''status'', JStr ''completed''),
                     (''text'', JStr ''hello world'')] :: int json"
  let ?err = "JObj [(''error'', JStr ''invalid api key'')] :: int json"
  have it0: "waitForTranscript_iteration demo_platform (Inr reply_queued) = Continue 3000"
    by (simp add: waitForTranscript_iteration_def fst_response_json_fresh demo_platform_def
          demo_parse_def reply_queued_def json_reply_def)
  have it1: "waitForTranscript_iteration demo_platform (Inr reply_processing) = Continue 3000"
    by (simp add: waitForTranscript_iteration_def fst_response_json_fresh demo_platform_def
          demo_parse_def reply_processing_def json_reply_def)
  have pre: "\<forall>i<2. keeps_waiting demo_platform (demo_polls i ?req)"
    using it0 it1 by (auto simp add: keeps_waiting_def demo_polls_def dest!: less_2_cases)
  have sum: "(\<Sum>i<2. pause demo_platform (demo_polls i ?req)) = 6000"
    using it0 it1 by (simp add: numeral_2_eq_2 pause_def demo_polls_def)
  have fin: "polled_body demo_platform (demo_polls 2 ?req) = Some ?done"
    "is_object ?done" "get_prop ?done ''error'' = None"
    "get_prop ?done ''status'' = Some (JStr ''completed'')"
    by (simp_all add: polled_body_def demo_polls_def reply_completed_def json_reply_def
          demo_platform_def demo_parse_def is_object_def)
  have pre': "\<forall>i<1. keeps_waiting demo_platform (demo_polls_failing i ?req)"
    using it0 by (simp add: keeps_waiting_def demo_polls_failing_def)
  have sum': "(\<Sum>i<1. pause demo_platform (demo_polls_failing i ?req)) = 3000"
    using it0 by (simp add: pause_def demo_polls_failing_def)
  have fin': "polled_body demo_platform (demo_polls_failing 1 ?req) = Some ?err"
    "get_prop ?err ''error'' = Some (JStr ''invalid api key'')"
    by (simp_all add: polled_body_def demo_polls_failing_def reply_invalid_key_def
          json_reply_def demo_platform_def demo_parse_def)
  from C2_waitForTranscript
    [where P = demo_platform and fetch = demo_polls and k = "''key''" and tid = "''abc123''"
       and n = 2] pre fin sum
  have one: "waitForTranscript demo_platform demo_polls ''key'' ''abc123'' = Some (Inr ?done, 6000)"
    by simp
  from C2_waitForTranscript
    [where P = demo_platform and fetch = demo_polls_failing and k = "''key''"
       and tid = "''abc123''" and n = 1] pre' fin' sum'
  have two: "waitForTranscript demo_platform demo_polls_failing ''key'' ''abc123'' =
      Some (Inl (Error ''invalid api key''), 3000)"
    by simp
  from one two show ?thesis by simp
qed

text \<open>
  C3. A polled response whose body is an object without \<open>error\<close> and whose status
  is none of \<open>queued\<close>, \<open>processing\<close> and \<open>completed\<close> (any other value, or none)
  makes the pass neither return nor raise: the loop goes on to the next poll, at
  once, with the time slept unchanged.
\<close>

theorem C3_unrecognised_status_keeps_polling:
  assumes "polled_body P (fetch i (polling_request k tid)) = Some j"
    and "is_object j" and "get_prop j ''error'' = None"
    and "get_prop j ''status'' \<noteq> Some (JStr ''queued'')"
    and "get_prop j ''status'' \<noteq> Some (JStr ''processing'')"
    and "get_prop j ''status'' \<noteq> Some (JStr ''completed'')"
  shows "waitForTranscript_iteration P (fetch i (polling_request k tid)) = Continue 0 \<and>
         waitForTranscript_loop P fetch k tid i slept =
           waitForTranscript_loop P fetch k tid (Suc i) slept"
proof -
  have c: "waitForTranscript_iteration P (fetch i (polling_request k tid)) = Continue 0"
    using iteration_body [OF assms(1) assms(2) assms(3)] assms(4-6) by simp
  then have "waitForTranscript_loop P fetch k tid i slept =
      waitForTranscript_loop P fetch k tid (Suc i) (slept + 0)"
    by (rule loop_Continue)
  with c show ?thesis by simp
qed

theorem C3_unrecognised_status_keeps_polling_witness:
  "polled_body demo_platform (demo_polls_unknown 0 (polling_request ''key'' ''abc123'')) =
     Some (JObj [(''id'', JStr ''abc123''), (''status'', JStr ''error''), (''text'', JStr '''')]) \<and>
   waitForTranscript_iteration demo_platform
     (demo_polls_unknown 0 (polling_request ''key'' ''abc123'')) = Continue 0 \<and>
   waitForTranscript_loop demo_platform demo_polls_unknown ''key'' ''abc123'' 0 0 =
     waitForTranscript_loop demo_platform demo_polls_unknown ''key'' ''abc123'' (Suc 0) 0"
proof -
  let ?j = "JObj [(''id'', JStr ''abc123''), (''status'', JStr ''error''), (''text'', JStr '''')]
              :: int json"
  have a: "polled_body demo_platform (demo_polls_unknown 0 (polling_request ''key'' ''abc123''))
      = Some ?j"
    by (simp add: polled_body_def demo_polls_unknown_def reply_failed_def json_reply_def
          demo_platform_def demo_parse_def)
  have b: "is_object ?j" "get_prop ?j ''error'' = None"
    "get_prop ?j ''status'' \<noteq> Some (JStr ''queued'')"
    "get_prop ?j ''status'' \<noteq> Some (JStr ''processing'')"
    "get_prop ?j ''status'' \<noteq> Some (JStr ''completed'')"
    by (simp_all add: is_object_def)
  from C3_unrecognised_status_keeps_polling
    [where P = demo_platform and fetch = demo_polls_unknown and i = 0 and k = "''key''"
       and tid = "''abc123''" and j = ?j and slept = 0, OF a b] a
  show ?thesis by simp
qed

section \<open>The routes of the worker\<close>

lemma text_response_string:
  "text_response P (Some (JStr s)) hs =
     \<lparr> res_status = 200,
       res_headers = (''content-type'', ''text/plain; charset=utf-8'') # hs,
       res_body = Some s \<rparr>"
  by (simp add: text_response_def body_init_def)

text \<open>
  C4. \<open>GET /transcript/:id\<close>, when \<open>getTranscript\<close> succeeds: if the status of the
  transcript is \<open>completed\<close> the response is the plain text of the transcript's
  \<open>text\<close>; for any other status the response is the plain text of the status itself,
  with the header \<open>Refresh: 3\<close>. The second variant does the same on what the SDK
  returns, with \<open>Refresh: 1\<close>. The plain-text response of a string has that string
  as its body.
\<close>

theorem C4_transcript_page:
  "(getTranscript P fetch (ASSEMBLYAI_API_KEY env) tid = Inr transcript \<longrightarrow>
      (get_prop transcript ''status'' = Some (JStr ''completed'') \<longrightarrow>
         transcript_handler P fetch tid env =
           Inr (text_response P (get_prop transcript ''text'') [])) \<and>
      (get_prop transcript ''status'' \<noteq> Some (JStr ''completed'') \<longrightarrow>
         transcript_handler P fetch tid env =
           Inr (text_response P (get_prop transcript ''status'') [(''Refresh'', ''3'')]))) \<and>
   (transcripts_get tid = Inr transcript \<longrightarrow>
      (get_prop transcript ''status'' = Some (JStr ''completed'') \<longrightarrow>
         transcript_handler_sdk P transcripts_get tid =
           Inr (text_response P (get_prop transcript ''text'') [])) \<and>
      (get_prop transcript ''status'' \<noteq> Some (JStr ''completed'') \<longrightarrow>
         transcript_handler_sdk P transcripts_get tid =
           Inr (text_response P (get_prop transcript ''status'') [(''Refresh'', ''1'')]))) \<and>
   (\<forall>s hs. text_response P (Some (JStr s)) hs =
      \<lparr> res_status = 200,
        res_headers = (''content-type'', ''text/plain; charset=utf-8'') # hs,
        res_body = Some s \<rparr>)"
  by (simp add: transcript_handler_def transcript_handler_sdk_def text_response_string)

theorem C4_transcript_page_witness:
  "transcript_handler demo_platform demo_fetch ''abc123'' demo_env =
     Inr \<lparr> res_status = 200,
           res_headers = [(''content-type'', ''text/plain; charset=utf-8'')],
           res_body = Some ''hello world'' \<rparr> \<and>
   transcript_handler demo_platform (serve reply_processing) ''abc123'' demo_env =
     Inr \<lparr> res_status = 200,
           res_headers = [(''content-type'', ''text/plain; charset=utf-8''),
                          (''Refresh'', ''3'')],
           res_body = Some ''processing'' \<rparr> \<and>
   transcript_handler_sdk demo_platform demo_transcripts_get ''abc123'' =
     Inr \<lparr> res_status = 200,
           res_headers = [(''content-type'', ''text/plain; charset=utf-8''),
                          (''Refresh'', ''1'')],
           res_body = Some ''processing'' \<rparr>"
proof -
  let ?done = "JObj [(''id'', JStr ''abc123''), (''status'', JStr ''completed''),
                     (''text'', JStr ''hello world'')] :: int json"
  let ?busy = "JObj [(''id'', JStr ''abc123''), (''status'', JStr ''processing''),
                     (''text'', JStr '''')] :: int json"
  have a: "getTranscript demo_platform demo_fetch (ASSEMBLYAI_API_KEY demo_env) ''abc123''
      = Inr ?done"
    by (simp add: getTranscript_def getTranscript_request_def baseUrl_def demo_fetch_def
          demo_env_def fst_response_json_fresh reply_completed_def json_reply_def
          demo_platform_def demo_parse_def)
  have b: "getTranscript demo_platform (serve reply_processing) (ASSEMBLYAI_API_KEY demo_env)
      ''abc123'' = Inr ?busy"
    by (simp add: getTranscript_def serve_def fst_response_json_fresh reply_processing_def
          json_reply_def demo_platform_def demo_parse_def)
  have c: "demo_transcripts_get ''abc123'' = Inr ?busy"
    by (simp add: demo_transcripts_get_def)
  from C4_transcript_page
    [where P = demo_platform and fetch = demo_fetch and env = demo_env and tid = "''abc123''"
       and transcript = ?done] a
  have one: "transcript_handler demo_platform demo_fetch ''abc123'' demo_env =
      Inr \<lparr> res_status = 200,
            res_headers = [(''content-type'', ''text/plain; charset=utf-8'')],
            res_body = Some ''hello world'' \<rparr>"
    by simp
  from C4_transcript_page
    [where P = demo_platform and fetch = "serve reply_processing" and env = demo_env
       and tid = "''abc123''" and transcript = ?busy
       and transcripts_get = demo_transcripts_get] b c
  have two: "transcript_handler demo_platform (serve reply_processing) ''abc123'' demo_env =
      Inr \<lparr> res_status = 200,
            res_headers = [(''content-type'', ''text/plain; charset=utf-8''),
                           (''Refresh'', ''3'')],
            res_body = Some ''processing'' \<rparr>"
    and three: "transcript_handler_sdk demo_platform demo_transcripts_get ''abc123'' =
      Inr \<lparr> res_status = 200,
            res_headers = [(''content-type'', ''text/plain; charset=utf-8''),
                           (''Refresh'', ''1'')],
            res_body = Some ''processing'' \<rparr>"
    by simp_all
  from one two three show ?thesis by simp
qed




text \<open>
  C9. The exported \<open>fetch\<close>: when routing or a handler raises, whatever the error,
  the response is the one generic error response; a result that is a response is
  passed through unchanged; a result that is not a response (\<open>undefined\<close> when no
  route matches) is answered as JSON, the body being its serialisation.
\<close>

theorem C9_fetch_fallback:
  "(router_handle P fetch route_of req env = Inl e \<longrightarrow>
      worker_fetch P fetch route_of req env =
        \<lparr> res_status = 500, res_headers = [], res_body = None \<rparr>) \<and>
   (router_handle P fetch route_of req env = Inr (IsResponse r) \<longrightarrow>
      worker_fetch P fetch route_of req env = r) \<and>
   (router_handle P fetch route_of req env = Inr (Other v) \<longrightarrow>
      res_body (worker_fetch P fetch route_of req env) = map_option (JSON_stringify P) v \<and>
      map_of (res_headers (worker_fetch P fetch route_of req env)) ''content-type''
        = Some ''application/json'')"
  by (simp add: worker_fetch_def json_response_def error_response_def)

theorem C9_fetch_fallback_witness:
  "worker_fetch demo_platform demo_fetch demo_route_of
     (demo_get ''https://worker.example/transcript/nope'') demo_env =
     \<lparr> res_status = 500, res_headers = [], res_body = None \<rparr> \<and>
   worker_fetch demo_platform demo_fetch demo_route_of
     (demo_get ''https://worker.example/'') demo_env = html_response upload_form \<and>
   res_body (worker_fetch demo_platform demo_fetch demo_route_of
     (demo_get ''https://worker.example/favicon.ico'') demo_env) = None"
proof -
  have a: "router_handle demo_platform demo_fetch demo_route_of
      (demo_get ''https://worker.example/transcript/nope'') demo_env
      = Inl (Error ''invalid api key'')"
    by (simp add: router_handle_def demo_route_of_def demo_get_def transcript_handler_def
          getTranscript_def getTranscript_request_def baseUrl_def demo_fetch_def
          fst_response_json_fresh reply_invalid_key_def json_reply_def demo_platform_def
          demo_parse_def)
  have b: "router_handle demo_platform demo_fetch demo_route_of
      (demo_get ''https://worker.example/'') demo_env
      = Inr (IsResponse (html_response upload_form))"
    by (simp add: router_handle_def demo_route_of_def demo_get_def)
  have c: "router_handle demo_platform demo_fetch demo_route_of
      (demo_get ''https://worker.example/favicon.ico'') demo_env = Inr (Other None)"
    by (simp add: router_handle_def demo_route_of_def demo_get_def)
  from C9_fetch_fallback
    [where P = demo_platform and fetch = demo_fetch and route_of = demo_route_of
       and req = "demo_get ''https://worker.example/transcript/nope''" and env = demo_env
       and e = "Error ''invalid api key''"] a
  have one: "worker_fetch demo_platform demo_fetch demo_route_of
      (demo_get ''https://worker.example/transcript/nope'') demo_env =
      \<lparr> res_status = 500, res_headers = [], res_body = None \<rparr>"
    by simp
  from C9_fetch_fallback
    [where P = demo_platform and fetch = demo_fetch and route_of = demo_route_of
       and req = "demo_get ''https://worker.example/''" and env = demo_env
       and r = "html_response upload_form"] b
  have two: "worker_fetch demo_platform demo_fetch demo_route_of
      (demo_get ''https://worker.example/'') demo_env = html_response upload_form"
    by simp
  from C9_fetch_fallback
    [where P = demo_platform and fetch = demo_fetch and route_of = demo_route_of
       and req = "demo_get ''https://worker.example/favicon.ico''" and env = demo_env
       and v = None] c
  have three: "res_body (worker_fetch demo_platform demo_fetch demo_route_of
      (demo_get ''https://worker.example/favicon.ico'') demo_env) = None"
    by simp
  from one two three show ?thesis by simp
qed

end
